theory Spec2Isabelle
  imports Main
begin

section \<open>JSON values and HTTP messages\<close>

text \<open>
  Response bodies are JavaScript object literals sent with \<open>res.send\<close>. An object is
  kept as an association list, so that \<open>Object.keys\<close> (which the test suite compares
  with \<open>toEqual\<close>) is the list of first components, in insertion order.
  \<open>JNum\<close> holds the integral numbers the program produces (ids, status codes,
  millisecond time stamps).
\<close>

datatype json =
    JNull
  | JBool bool
  | JNum int
  | JStr string
  | JObj "(string \<times> json) list"

fun keys :: "json \<Rightarrow> string list" where
  "keys (JObj kvs) = map fst kvs"
| "keys _ = []"

fun getProp :: "json \<Rightarrow> string \<Rightarrow> json option" where
  "getProp (JObj kvs) k = map_of kvs k"
| "getProp _ k = None"

fun digitsOf :: "nat \<Rightarrow> string" where
  "digitsOf n =
     (if n < 10 then [char_of (48 + n)]
      else digitsOf (n div 10) @ [char_of (48 + n mod 10)])"

text \<open>
  \<open>toStringJS\<close> is the conversion a template literal applies to an interpolated value
  (\<open>None\<close> is \<open>undefined\<close>, a property the object does not have).
\<close>

fun toStringJS :: "json option \<Rightarrow> string" where
  "toStringJS None = ''undefined''"
| "toStringJS (Some JNull) = ''null''"
| "toStringJS (Some (JBool b)) = (if b then ''true'' else ''false'')"
| "toStringJS (Some (JNum n)) = (if n < 0 then ''-'' @ digitsOf (nat (- n)) else digitsOf (nat n))"
| "toStringJS (Some (JStr s)) = s"
| "toStringJS (Some (JObj kvs)) = ''[object Object]''"

text \<open>The \<open>user\<close> model of \<open>User.model.ts\<close>: \<open>activationToken\<close> is a nullable column.\<close>

record user =
  user_id :: int
  username :: string
  email :: string
  password :: string
  inactive :: bool
  activationToken :: "string option"
  createdAt :: int
  updatedAt :: int

text \<open>
  What a handler reads of an Express request: \<open>req.originalUrl\<close>, \<open>req.body\<close>, the
  translator \<open>req.t\<close> of the request's locale, \<open>req.user\<close> (set by a successful
  authentication) and \<open>req.flash\<close>, which returns the messages stored under a key.
\<close>

record request =
  originalUrl :: string
  body :: "(string \<times> json) list"
  t :: "string \<Rightarrow> string"
  user :: "user option"
  flash :: "string \<Rightarrow> string list"

record response =
  status :: nat
  payload :: json

section \<open>Thrown values\<close>

text \<open>
  \<open>ErrorHandle\<close> receives \<open>err: unknown\<close> and inspects it with \<open>instanceof\<close> only. An
  instance of \<open>Error\<close> always has a string \<open>message\<close> (the empty string when it was
  constructed without one); \<open>classes\<close> lists the subclasses of \<open>Error\<close> it is an instance
  of. Any other thrown value (a plain object, a string, \<open>undefined\<close>) is \<open>NonError\<close>,
  together with its \<open>message\<close> property when it has one.
\<close>

datatype errclass =
    Error
  | ErrorBodyValidation
  | ErrorUserExists
  | ErrorSendEmailActivation
  | ErrorToken
  | ErrorUserNotFound
  | ErrorAuthFailed
  | ErrorAuthForbidden
  | ErrorAuthInactiveAccount

record errobj =
  classes :: "errclass list"
  code :: nat
  message :: string
  field :: string
  validationErrors :: "(string \<times> string) list option"

datatype thrown =
    ErrorObject errobj
  | NonError "string option"

fun instanceof :: "thrown \<Rightarrow> errclass \<Rightarrow> bool" where
  "instanceof (ErrorObject e) c = (c = Error \<or> c \<in> set (classes e))"
| "instanceof (NonError m) c = False"

text \<open>The message a thrown value carries, if it carries one.\<close>

fun carriedMessage :: "thrown \<Rightarrow> string option" where
  "carriedMessage (ErrorObject e) = Some (message e)"
| "carriedMessage (NonError m) = m"

section \<open>The error mapper\<close>

text \<open>
  \<open>generateResponse\<close>: \<open>timeStamp\<close> is \<open>new Date().getTime()\<close>, passed in as the clock
  reading. The test \<open>if (validationErrors)\<close> is JavaScript truthiness: an object, even an
  empty one, passes it; \<open>undefined\<close> (\<open>None\<close>) does not.
\<close>

definition generateResponse :: "int \<Rightarrow> string \<Rightarrow> string \<Rightarrow> (string \<times> string) list option \<Rightarrow> json" where
  "generateResponse timeStamp path msg ves =
     (case ves of
        Some ve \<Rightarrow>
          JObj [(''path'', JStr path), (''timeStamp'', JNum timeStamp), (''message'', JStr msg),
                (''validationErrors'', JObj (map (\<lambda>(k, v). (k, JStr v)) ve))]
      | None \<Rightarrow>
          JObj [(''path'', JStr path), (''timeStamp'', JNum timeStamp), (''message'', JStr msg)])"

text \<open>The three groups of \<open>instanceof\<close> tests of \<open>ErrorHandle\<close>, in its order.\<close>

definition messageOnlyClasses :: "errclass list" where
  "messageOnlyClasses =
     [ErrorSendEmailActivation, ErrorToken, ErrorUserNotFound, ErrorAuthFailed, ErrorAuthForbidden]"

fun ErrorHandle :: "int \<Rightarrow> thrown \<Rightarrow> request \<Rightarrow> response" where
  "ErrorHandle now (ErrorObject e) req =
     (let path = originalUrl req in
      if instanceof (ErrorObject e) ErrorBodyValidation then
        \<lparr>status = code e, payload = generateResponse now path (message e) (validationErrors e)\<rparr>
      else if instanceof (ErrorObject e) ErrorUserExists then
        (let fld = field e;
             msg = fld @ '': '' @ toStringJS (map_of (body req) fld) @ '' '' @ t req (message e)
         in \<lparr>status = code e, payload = generateResponse now path msg (Some [(fld, msg)])\<rparr>)
      else if list_ex (instanceof (ErrorObject e)) messageOnlyClasses then
        \<lparr>status = code e, payload = generateResponse now path (t req (message e)) None\<rparr>
      else
        \<lparr>status = 400, payload = generateResponse now path (message e) None\<rparr>)"
| "ErrorHandle now (NonError m) req =
     \<lparr>status = 400, payload = generateResponse now (originalUrl req) ''Unknown Error'' None\<rparr>"

section \<open>The authentication controller\<close>

text \<open>
  A handler either sends a response (\<open>res.send\<close>, with Express's default status 200 when
  none was set) or passes a value to \<open>next\<close>, which Express hands to the error mapper.
\<close>

datatype outcome =
    Sent response
  | Next thrown

text \<open>
  The module \<open>ErrorClass\<close> is not among the sources. \<open>httpPostAuth\<close> and
  \<open>localAuthFailure\<close> only construct two of its classes without arguments, so the model
  takes the two constructed objects as a parameter.
\<close>

record errorClasses =
  newErrorAuthFailed :: errobj
  newErrorAuthInactiveAccount :: errobj

definition httpPostAuth :: "errorClasses \<Rightarrow> request \<Rightarrow> outcome" where
  "httpPostAuth D req =
     (case user req of
        None \<Rightarrow> Next (ErrorObject (newErrorAuthFailed D))
      | Some u \<Rightarrow>
          Sent \<lparr>status = 200,
                payload = JObj [(''id'', JNum (user_id u)), (''username'', JStr (username u))]\<rparr>)"


text \<open>What the client receives: the response sent, or the error mapper's for the value passed on.\<close>

fun respond :: "int \<Rightarrow> request \<Rightarrow> outcome \<Rightarrow> response" where
  "respond now req (Sent r) = r"
| "respond now req (Next err) = ErrorHandle now err req"

text \<open>
  The failures that carry field-level errors: a body-validation failure with its
  \<open>validationErrors\<close> object, and a duplicate-field failure (tested second, as the
  mapper does).
\<close>

fun fieldLevelErrors :: "thrown \<Rightarrow> bool" where
  "fieldLevelErrors (ErrorObject e) =
     (if instanceof (ErrorObject e) ErrorBodyValidation then validationErrors e \<noteq> None
      else instanceof (ErrorObject e) ErrorUserExists)"
| "fieldLevelErrors (NonError m) = False"

text \<open>
  The failures the mapper treats as domain failures: instances of one of the seven
  classes it tests for.
\<close>

definition domainFailure :: "thrown \<Rightarrow> bool" where
  "domainFailure err =
     list_ex (instanceof err) (ErrorBodyValidation # ErrorUserExists # messageOnlyClasses)"


section \<open>Validation schema\<close>

text \<open>
  Modelled from the spec: \<open>signUpSchema\<close>, \<open>bodyValidatorMW\<close> and
  \<open>validationErrorGenerator\<close> (module \<open>utils\<close>) are not among the sources; only the route
  that installs the middleware in front of the signup handler is. Following the spec,
  a schema gives each declared field an ordered list of rules, a field's rules are
  checked independently of the other fields, and the first violated rule alone is
  reported, by its message key. Emptiness, type mismatch and length or pattern
  violations have message keys of their own; the keys are the names the test suites
  use. The spec bounds a password at 72 characters without naming a message for the
  upper bound; it is \<open>errorPasswordMax\<close> here. Length is the number of characters of the
  string.
\<close>

type_synonym rule = "(json option \<Rightarrow> bool) \<times> string"

type_synonym schema = "(string \<times> rule list) list"

definition notText :: "json option \<Rightarrow> bool" where
  "notText v = (case v of None \<Rightarrow> False | Some (JStr s) \<Rightarrow> False | Some _ \<Rightarrow> True)"

definition isEmpty :: "json option \<Rightarrow> bool" where
  "isEmpty v = (case v of None \<Rightarrow> True | Some (JStr s) \<Rightarrow> s = [] | Some _ \<Rightarrow> False)"

definition shorterThan :: "nat \<Rightarrow> json option \<Rightarrow> bool" where
  "shorterThan n v = (case v of Some (JStr s) \<Rightarrow> length s < n | _ \<Rightarrow> False)"

definition longerThan :: "nat \<Rightarrow> json option \<Rightarrow> bool" where
  "longerThan n v = (case v of Some (JStr s) \<Rightarrow> n < length s | _ \<Rightarrow> False)"

definition textFails :: "(string \<Rightarrow> bool) \<Rightarrow> json option \<Rightarrow> bool" where
  "textFails ok v = (case v of Some (JStr s) \<Rightarrow> \<not> ok s | _ \<Rightarrow> False)"

text \<open>
  Modelled from the spec: the pattern of the password rule is not among the sources.
  The composition rule asks for an uppercase letter, a lowercase letter, a digit and a
  symbol, a symbol being a printable ASCII character that is neither a letter, a digit
  nor the space.
\<close>

definition isUpper :: "char \<Rightarrow> bool" where
  "isUpper c = (65 \<le> (of_char c :: nat) \<and> (of_char c :: nat) \<le> 90)"

definition isLower :: "char \<Rightarrow> bool" where
  "isLower c = (97 \<le> (of_char c :: nat) \<and> (of_char c :: nat) \<le> 122)"

definition isDigit :: "char \<Rightarrow> bool" where
  "isDigit c = (48 \<le> (of_char c :: nat) \<and> (of_char c :: nat) \<le> 57)"

definition isSymbol :: "char \<Rightarrow> bool" where
  "isSymbol c =
     (33 \<le> (of_char c :: nat) \<and> (of_char c :: nat) \<le> 126 \<and>
      \<not> isUpper c \<and> \<not> isLower c \<and> \<not> isDigit c)"

definition composed :: "string \<Rightarrow> bool" where
  "composed s = (list_ex isUpper s \<and> list_ex isLower s \<and> list_ex isDigit s \<and> list_ex isSymbol s)"

definition usernameRules :: "rule list" where
  "usernameRules =
     [(notText, ''errorUsernameNull''), (isEmpty, ''errorUsernameEmpty''),
      (shorterThan 3, ''userSizeMin''), (longerThan 30, ''userSizeMax'')]"

definition emailRules :: "(string \<Rightarrow> bool) \<Rightarrow> rule list" where
  "emailRules validEmail =
     [(notText, ''errorEmailNull''), (isEmpty, ''errorEmailEmpty''),
      (textFails validEmail, ''errorEmailInvalid'')]"

definition passwordRules :: "rule list" where
  "passwordRules =
     [(notText, ''errorPasswordNull''), (isEmpty, ''errorPasswordEmpty''),
      (shorterThan 8, ''errorPassword2''), (longerThan 72, ''errorPasswordMax''),
      (textFails composed, ''errorPassword1'')]"

text \<open>
  Modelled from the spec: the signup schema declares the three fields of a new user. The
  syntax of an email address is the validator's business: a parameter.
\<close>

definition signUpSchema :: "(string \<Rightarrow> bool) \<Rightarrow> schema" where
  "signUpSchema validEmail =
     [(''username'', usernameRules), (''email'', emailRules validEmail),
      (''password'', passwordRules)]"

definition firstViolated :: "rule list \<Rightarrow> json option \<Rightarrow> string option" where
  "firstViolated rules v = map_option snd (find (\<lambda>r. fst r v) rules)"

text \<open>
  Modelled from the spec: the validator itself is not among the sources. It lists the
  failures of a body, field by field: the declared fields in the schema's order, then
  every key of the body the schema does not declare. A body is an object, each key
  once; \<open>remdups\<close> keeps that for any association list.
\<close>

definition validateBody :: "schema \<Rightarrow> (string \<times> json) list \<Rightarrow> (string \<times> string) list" where
  "validateBody sch b =
     List.map_filter (\<lambda>(f, rules). map_option (Pair f) (firstViolated rules (map_of b f))) sch @
     map (\<lambda>k. (k, ''customFieldNotAllowed''))
       (filter (\<lambda>k. k \<notin> set (map fst sch)) (remdups (map fst b)))"

section \<open>User store and account workflows\<close>

text \<open>
  Modelled from the spec: the handlers \<open>UserHelperController.httpPostSignUp\<close>,
  \<open>httpActivateAccount\<close>, \<open>httpPutUserById\<close> and \<open>httpDeleteUserById\<close>, the model
  helpers behind them and the login strategy are not among the sources; only their
  routes, the \<open>user\<close> model and their tests are. The workflows below follow the spec's
  steps (sections 3, 4.2 and 4.3) over an explicit store: the user table with its
  auto-increment counter, the session records, and the activation notifications
  dispatched so far. Failures are the kinds of the spec's taxonomy.
\<close>

datatype failure =
    ValidationFailure "(string \<times> string) list"
  | DuplicateField string string
  | InvalidToken
  | ResourceNotFound
  | AuthFailed
  | AuthInactiveAccount
  | AuthForbidden
  | UnexpectedFailure "string option"

record store =
  users :: "user list"
  nextId :: int
  sessions :: "(string \<times> int) list"
  outbox :: "(string \<times> string) list"

definition emptyStore :: store where
  "emptyStore = \<lparr>users = [], nextId = 1, sessions = [], outbox = []\<rparr>"

text \<open>
  Modelled from the spec: the external collaborators (section 6), the credential hasher
  with its verification, and the activation notifier, which reports whether the message
  to an address was sent.
\<close>

record collaborators =
  hashPassword :: "string \<Rightarrow> string"
  verifyPassword :: "string \<Rightarrow> string \<Rightarrow> bool"
  sendActivation :: "string \<Rightarrow> string \<Rightarrow> bool"

record newUser =
  newUsername :: string
  newEmail :: string
  newPassword :: string

text \<open>
  Modelled from the spec: the signup workflow (4.2, steps 1 to 5; its handler and model
  helper are not among the sources), for a validated payload and a freshly generated
  token \<open>tok\<close>: reject a username or an email already stored, naming the field and the
  value; store the user with the hashed password, inactive, with the token; dispatch the
  notification. A failed dispatch fails the request and leaves the stored user.
\<close>

definition signUp :: "collaborators \<Rightarrow> int \<Rightarrow> string \<Rightarrow> newUser \<Rightarrow> store \<Rightarrow> (failure + user) \<times> store" where
  "signUp C now tok nu s =
     (if list_ex (\<lambda>u. username u = newUsername nu) (users s) then
        (Inl (DuplicateField ''username'' (newUsername nu)), s)
      else if list_ex (\<lambda>u. email u = newEmail nu) (users s) then
        (Inl (DuplicateField ''email'' (newEmail nu)), s)
      else
        (let u = \<lparr>user_id = nextId s, username = newUsername nu, email = newEmail nu,
                  password = hashPassword C (newPassword nu), inactive = True,
                  activationToken = Some tok, createdAt = now, updatedAt = now\<rparr>;
             s1 = s\<lparr>users := users s @ [u], nextId := nextId s + 1\<rparr>
         in if sendActivation C (newEmail nu) tok then
              (Inr u, s1\<lparr>outbox := outbox s1 @ [(newEmail nu, tok)]\<rparr>)
            else (Inl (UnexpectedFailure None), s1)))"

text \<open>
  Modelled from the spec: \<open>httpActivateAccount\<close> is not among the sources. Activation
  (4.2): the first user whose activation token matches has the token
  cleared and becomes active; without a match the token is invalid.
\<close>

fun activateFirst :: "string \<Rightarrow> int \<Rightarrow> user list \<Rightarrow> user list option" where
  "activateFirst tok now [] = None"
| "activateFirst tok now (u # us) =
     (if activationToken u = Some tok
      then Some (u\<lparr>inactive := False, activationToken := None, updatedAt := now\<rparr> # us)
      else map_option ((#) u) (activateFirst tok now us))"

definition activateAccount :: "int \<Rightarrow> string \<Rightarrow> store \<Rightarrow> (failure + unit) \<times> store" where
  "activateAccount now tok s =
     (case activateFirst tok now (users s) of
        None \<Rightarrow> (Inl InvalidToken, s)
      | Some us \<Rightarrow> (Inr (), s\<lparr>users := us\<rparr>))"

text \<open>
  Modelled from the spec: \<open>httpPutUserById\<close> is not among the sources. Update (3 and 6):
  only the authenticated owner may change a record; a new
  username or email is subject to the uniqueness rule of signup.
\<close>

definition updateUser ::
  "int \<Rightarrow> int option \<Rightarrow> int \<Rightarrow> string option \<Rightarrow> string option \<Rightarrow> store \<Rightarrow> (failure + unit) \<times> store" where
  "updateUser now actor target un em s =
     (if actor \<noteq> Some target then (Inl AuthForbidden, s)
      else if \<not> list_ex (\<lambda>u. user_id u = target) (users s) then (Inl ResourceNotFound, s)
      else if (case un of None \<Rightarrow> False
               | Some n \<Rightarrow> list_ex (\<lambda>u. user_id u \<noteq> target \<and> username u = n) (users s))
        then (Inl (DuplicateField ''username'' (case un of None \<Rightarrow> [] | Some n \<Rightarrow> n)), s)
      else if (case em of None \<Rightarrow> False
               | Some e \<Rightarrow> list_ex (\<lambda>u. user_id u \<noteq> target \<and> email u = e) (users s))
        then (Inl (DuplicateField ''email'' (case em of None \<Rightarrow> [] | Some e \<Rightarrow> e)), s)
      else
        (Inr (), s\<lparr>users :=
           map (\<lambda>u. if user_id u = target
                     then u\<lparr>username := (case un of None \<Rightarrow> username u | Some n \<Rightarrow> n),
                            email := (case em of None \<Rightarrow> email u | Some e \<Rightarrow> e),
                            updatedAt := now\<rparr>
                     else u) (users s)\<rparr>))"

text \<open>
  Modelled from the spec: \<open>httpDeleteUserById\<close> is not among the sources. Delete (3 and
  6): by the owner, with the user's session records.
\<close>

definition deleteUser :: "int option \<Rightarrow> int \<Rightarrow> store \<Rightarrow> (failure + unit) \<times> store" where
  "deleteUser actor target s =
     (if actor \<noteq> Some target then (Inl AuthForbidden, s)
      else (Inr (), s\<lparr>users := filter (\<lambda>u. user_id u \<noteq> target) (users s),
                       sessions := filter (\<lambda>(tk, uid). uid \<noteq> target) (sessions s)\<rparr>))"

text \<open>
  Modelled from the spec: the login strategy is not among the sources. Login (4.3):
  unknown email, then inactive account, then password mismatch; on
  success a new session token \<open>tk\<close> is recorded for the user.
\<close>

definition authenticate ::
  "collaborators \<Rightarrow> string \<Rightarrow> string \<Rightarrow> string \<Rightarrow> store \<Rightarrow> (failure + (int \<times> string \<times> string)) \<times> store" where
  "authenticate C tk em pw s =
     (case find (\<lambda>u. email u = em) (users s) of
        None \<Rightarrow> (Inl AuthFailed, s)
      | Some u \<Rightarrow>
          if inactive u then (Inl AuthInactiveAccount, s)
          else if \<not> verifyPassword C pw (password u) then (Inl AuthFailed, s)
          else (Inr (user_id u, username u, tk), s\<lparr>sessions := sessions s @ [(tk, user_id u)]\<rparr>))"

text \<open>The store states reachable from the empty store by the workflows, whatever their arguments.\<close>

inductive reachable :: "collaborators \<Rightarrow> store \<Rightarrow> bool" for C :: collaborators where
  initial: "reachable C emptyStore"
| signup: "reachable C s \<Longrightarrow> reachable C (snd (signUp C now tok nu s))"
| activation: "reachable C s \<Longrightarrow> reachable C (snd (activateAccount now tok s))"
| update: "reachable C s \<Longrightarrow> reachable C (snd (updateUser now actor target un em s))"
| delete: "reachable C s \<Longrightarrow> reachable C (snd (deleteUser actor target s))"
| login: "reachable C s \<Longrightarrow> reachable C (snd (authenticate C tk em pw s))"

text \<open>The two states of a user record that the data model allows.\<close>

definition tokenState :: "user \<Rightarrow> bool" where
  "tokenState u =
     (inactive u \<and> activationToken u \<noteq> None \<or> \<not> inactive u \<and> activationToken u = None)"


definition sampleTranslate :: "string \<Rightarrow> string" where
  "sampleTranslate k = ''en:'' @ k"

definition sampleSignUpRequest :: request where
  "sampleSignUpRequest =
     \<lparr>originalUrl = ''/api/1.0/users'',
      body = [(''username'', JStr ''user1''), (''email'', JStr ''user1@gmail.com''),
              (''password'', JStr ''A4GuaN@SmZ'')],
      t = sampleTranslate, user = None, flash = (\<lambda>k. [])\<rparr>"



text \<open>
  A stand-in for the collaborators (a hasher that prefixes the plaintext, a notifier
  that always succeeds) and the payload of \<open>bodyValid\<close>.
\<close>

definition sampleCollaborators :: collaborators where
  "sampleCollaborators =
     \<lparr>hashPassword = (\<lambda>p. ''$2b$10$'' @ p),
      verifyPassword = (\<lambda>p h. h = ''$2b$10$'' @ p),
      sendActivation = (\<lambda>e tk. True)\<rparr>"

definition sampleNewUser :: newUser where
  "sampleNewUser =
     \<lparr>newUsername = ''user1'', newEmail = ''user1@gmail.com'', newPassword = ''A4GuaN@SmZ''\<rparr>"

definition sampleStoredUser :: user where
  "sampleStoredUser =
     \<lparr>user_id = 1, username = ''user1'', email = ''user1@gmail.com'',
      password = ''$2b$10$A4GuaN@SmZ'', inactive = True, activationToken = Some ''a1b2c3'',
      createdAt = 0, updatedAt = 0\<rparr>"

section \<open>Properties of the error mapper and of the authentication controller\<close>

lemma generateResponse_keys:
  "keys (generateResponse now p m ves) =
     (case ves of None \<Rightarrow> [''path'', ''timeStamp'', ''message'']
      | Some ve \<Rightarrow> [''path'', ''timeStamp'', ''message'', ''validationErrors''])"
  by (simp add: generateResponse_def split: option.split)

lemma generateResponse_path:
  "getProp (generateResponse now p m ves) ''path'' = Some (JStr p)"
  by (simp add: generateResponse_def split: option.split)

lemma generateResponse_timeStamp:
  "getProp (generateResponse now p m ves) ''timeStamp'' = Some (JNum now)"
  by (simp add: generateResponse_def split: option.split)

lemma generateResponse_message:
  "getProp (generateResponse now p m ves) ''message'' = Some (JStr m)"
  by (simp add: generateResponse_def split: option.split)

lemma generateResponse_validationErrors:
  "getProp (generateResponse now p m ves) ''validationErrors'' =
     map_option (\<lambda>ve. JObj (map (\<lambda>(k, v). (k, JStr v)) ve)) ves"
  by (simp add: generateResponse_def split: option.split)

text \<open>
  C1 (checked on the code at a logged-in request). For a request that passed
  authentication, \<open>httpPostAuth\<close> answers 200 with the user's id and username and nothing
  else: the body has no \<open>token\<close> key, whoever the user is.
\<close>

theorem httpPostAuth_body_has_no_token:
  "respond now (req\<lparr>user := Some u\<rparr>) (httpPostAuth D (req\<lparr>user := Some u\<rparr>)) =
     \<lparr>status = 200, payload = JObj [(''id'', JNum (user_id u)), (''username'', JStr (username u))]\<rparr>
   \<and> keys (payload (respond now (req\<lparr>user := Some u\<rparr>) (httpPostAuth D (req\<lparr>user := Some u\<rparr>))))
       = [''id'', ''username'']
   \<and> getProp (payload (respond now (req\<lparr>user := Some u\<rparr>) (httpPostAuth D (req\<lparr>user := Some u\<rparr>))))
       ''token'' = None"
  by (simp add: httpPostAuth_def)

text \<open>
  C4 as the claim words it fails: a thrown value that is not an \<open>Error\<close> instance is
  answered with \<open>Unknown Error\<close> although it carries a message (the plain object of the
  registration test suite).
\<close>

theorem unknown_error_ignores_carried_message:
  "\<not> domainFailure (NonError (Some ''Something went wrong''))
   \<and> carriedMessage (NonError (Some ''Something went wrong'')) = Some ''Something went wrong''
   \<and> status (ErrorHandle 0 (NonError (Some ''Something went wrong'')) sampleSignUpRequest) = 400
   \<and> getProp (payload (ErrorHandle 0 (NonError (Some ''Something went wrong'')) sampleSignUpRequest))
        ''message'' = Some (JStr ''Unknown Error'')"
  by (simp add: domainFailure_def messageOnlyClasses_def generateResponse_message)

text \<open>
  C4, amended. Every failure that is not an instance of one of the mapper's seven
  domain classes is answered with status 400. The message is the failure's own
  \<open>message\<close> when the failure is an \<open>Error\<close> instance, and \<open>Unknown Error\<close> when it is
  not, whether or not the thrown value carries a message of its own.
\<close>

theorem unexpected_failure_response:
  assumes "\<not> domainFailure err"
  shows "status (ErrorHandle now err req) = 400
       \<and> getProp (payload (ErrorHandle now err req)) ''message'' =
           Some (JStr (case err of ErrorObject e \<Rightarrow> message e | NonError m \<Rightarrow> ''Unknown Error''))
       \<and> keys (payload (ErrorHandle now err req)) = [''path'', ''timeStamp'', ''message'']"
proof (cases err)
  case (ErrorObject e)
  with assms show ?thesis
    by (simp add: domainFailure_def generateResponse_message generateResponse_keys)
next
  case (NonError m)
  then show ?thesis
    by (simp add: generateResponse_message generateResponse_keys)
qed

theorem unexpected_failure_response_witness:
  "status (ErrorHandle 0
      (ErrorObject \<lparr>classes = [], code = 0, message = ''Some Errors!!!!!'', field = [],
                    validationErrors = None\<rparr>) sampleSignUpRequest) = 400
   \<and> getProp (payload (ErrorHandle 0
      (ErrorObject \<lparr>classes = [], code = 0, message = ''Some Errors!!!!!'', field = [],
                    validationErrors = None\<rparr>) sampleSignUpRequest)) ''message'' =
      Some (JStr ''Some Errors!!!!!'')"
proof -
  let ?err = "ErrorObject \<lparr>classes = [], code = 0, message = ''Some Errors!!!!!'', field = [],
                    validationErrors = None\<rparr>"
  have h: "\<not> domainFailure ?err"
    by (simp add: domainFailure_def messageOnlyClasses_def)
  from unexpected_failure_response [OF h, of 0 sampleSignUpRequest]
  show ?thesis by simp
qed


text \<open>
  C9. Whatever is thrown, the mapper's answer is one object whose keys are \<open>path\<close>,
  \<open>timeStamp\<close> and \<open>message\<close>, in this order, followed by \<open>validationErrors\<close> exactly
  when the failure carries field-level errors (a body-validation failure with its
  errors object, or a duplicate-field failure); \<open>path\<close> is the request's URL, \<open>timeStamp\<close>
  the clock reading taken while mapping, and \<open>message\<close> a string.
\<close>

theorem error_envelope_shape:
  "keys (payload (ErrorHandle now err req)) =
      (if fieldLevelErrors err then [''path'', ''timeStamp'', ''message'', ''validationErrors'']
       else [''path'', ''timeStamp'', ''message''])
   \<and> getProp (payload (ErrorHandle now err req)) ''path'' = Some (JStr (originalUrl req))
   \<and> getProp (payload (ErrorHandle now err req)) ''timeStamp'' = Some (JNum now)
   \<and> (\<exists>m. getProp (payload (ErrorHandle now err req)) ''message'' = Some (JStr m))
   \<and> ((getProp (payload (ErrorHandle now err req)) ''validationErrors'' \<noteq> None) = fieldLevelErrors err)"
proof (cases err)
  case (ErrorObject e)
  then show ?thesis
    by (auto simp: Let_def generateResponse_keys generateResponse_path generateResponse_timeStamp
        generateResponse_message generateResponse_validationErrors)
next
  case (NonError m)
  then show ?thesis
    by (simp add: generateResponse_keys generateResponse_path generateResponse_timeStamp
        generateResponse_message generateResponse_validationErrors)
qed




section \<open>Properties of the validation schema\<close>

lemma map_filter_keys:
  "set (map fst (List.map_filter (\<lambda>(f, rules). map_option (Pair f) (g f rules)) sch)) \<subseteq> set (map fst sch)"
  by (induction sch) (auto simp: List.map_filter_simps split: option.splits)

lemma map_filter_distinct:
  "distinct (map fst sch) \<Longrightarrow>
   distinct (map fst (List.map_filter (\<lambda>(f, rules). map_option (Pair f) (g f rules)) sch))"
proof (induction sch)
  case Nil
  then show ?case by (simp add: List.map_filter_simps)
next
  case (Cons a sch)
  obtain f rules where a: "a = (f, rules)" by (cases a)
  have "f \<notin> set (map fst (List.map_filter (\<lambda>(f, rules). map_option (Pair f) (g f rules)) sch))"
    using Cons.prems a map_filter_keys [of g sch] by auto
  with Cons a show ?case
    by (auto simp: List.map_filter_simps split: option.splits)
qed

lemma map_filter_lookup:
  "distinct (map fst sch) \<Longrightarrow> (f, rules) \<in> set sch \<Longrightarrow>
   map_of (List.map_filter (\<lambda>(f, rules). map_option (Pair f) (g f rules)) sch) f = g f rules"
proof (induction sch)
  case Nil
  then show ?case by simp
next
  case (Cons a sch)
  obtain f' rules' where a: "a = (f', rules')" by (cases a)
  show ?case
  proof (cases "f' = f")
    case True
    with Cons.prems a have r: "rules' = rules"
      by (auto simp: image_iff)
    have "f \<notin> set (map fst (List.map_filter (\<lambda>(f, rules). map_option (Pair f) (g f rules)) sch))"
      using Cons.prems a True map_filter_keys [of g sch] by auto
    then have "map_of (List.map_filter (\<lambda>(f, rules). map_option (Pair f) (g f rules)) sch) f = None"
      by (simp add: map_of_eq_None_iff)
    with a True r show ?thesis
      by (auto simp: List.map_filter_simps split: option.splits)
  next
    case False
    with Cons a show ?thesis
      by (auto simp: List.map_filter_simps split: option.splits)
  qed
qed

lemma validateBody_distinct:
  assumes "distinct (map fst sch)"
  shows "distinct (map fst (validateBody sch b))"
proof -
  let ?A = "List.map_filter (\<lambda>(f, rules). map_option (Pair f) (firstViolated rules (map_of b f))) sch"
  let ?ks = "filter (\<lambda>k. k \<notin> set (map fst sch)) (remdups (map fst b))"
  have A: "distinct (map fst ?A)"
    using map_filter_distinct [OF assms, of "\<lambda>f rules. firstViolated rules (map_of b f)"] .
  have B: "map fst (map (\<lambda>k. (k, ''customFieldNotAllowed'')) ?ks) = ?ks"
    by (simp add: comp_def)
  have "set (map fst ?A) \<inter> set ?ks = {}"
    using map_filter_keys [of "\<lambda>f rules. firstViolated rules (map_of b f)" sch] by auto
  with A B show ?thesis
    by (simp add: validateBody_def del: map_map)
qed

lemma validateBody_declared:
  assumes "distinct (map fst sch)" and "(f, rules) \<in> set sch"
  shows "map_of (validateBody sch b) f = firstViolated rules (map_of b f)"
proof -
  let ?A = "List.map_filter (\<lambda>(f, rules). map_option (Pair f) (firstViolated rules (map_of b f))) sch"
  let ?ks = "filter (\<lambda>k. k \<notin> set (map fst sch)) (remdups (map fst b))"
  have A: "map_of ?A f = firstViolated rules (map_of b f)"
    using map_filter_lookup [OF assms, of "\<lambda>f rules. firstViolated rules (map_of b f)"] .
  have "f \<in> set (map fst sch)"
    using assms(2) by (force simp: image_iff)
  then have "f \<notin> fst ` set (map (\<lambda>k. (k, ''customFieldNotAllowed'')) ?ks)"
    by (auto simp: image_iff)
  then have B: "map_of (map (\<lambda>k. (k, ''customFieldNotAllowed'')) ?ks) f = None"
    by (rule map_of_eq_None_iff [THEN iffD2])
  show ?thesis
    unfolding validateBody_def map_of_append map_add_def A B
    by (simp split: option.split)
qed

lemma signUpSchema_distinct: "distinct (map fst (signUpSchema ve))"
  by (simp add: signUpSchema_def)

lemma password_declared: "(''password'', passwordRules) \<in> set (signUpSchema ve)"
  by (simp add: signUpSchema_def)

lemma firstViolated_short:
  "s \<noteq> [] \<Longrightarrow> length s < 8 \<Longrightarrow> firstViolated passwordRules (Some (JStr s)) = Some ''errorPassword2''"
  by (simp add: firstViolated_def passwordRules_def notText_def isEmpty_def shorterThan_def)

lemma firstViolated_composition:
  "8 \<le> length s \<Longrightarrow> length s \<le> 72 \<Longrightarrow> \<not> composed s \<Longrightarrow>
   firstViolated passwordRules (Some (JStr s)) = Some ''errorPassword1''"
  by (auto simp: firstViolated_def passwordRules_def notText_def isEmpty_def shorterThan_def
      longerThan_def textFails_def)


text \<open>
  C6 as the claim words it fails: the empty password is shorter than 8 characters and
  is reported as empty, not as too short (the first row for \<open>password\<close> of the
  registration test table).
\<close>

theorem empty_password_reported_as_empty:
  "length '''' < (8::nat)
   \<and> validateBody (signUpSchema (\<lambda>e. True))
        [(''username'', JStr ''user1''), (''email'', JStr ''user1@gmail.com''),
         (''password'', JStr '''')] = [(''password'', ''errorPasswordEmpty'')]"
  by (simp add: validateBody_def signUpSchema_def List.map_filter_simps firstViolated_def
      usernameRules_def emailRules_def passwordRules_def notText_def isEmpty_def
      shorterThan_def longerThan_def textFails_def)

text \<open>
  C6, amended. For every signup body whose password is a non-empty string shorter
  than 8 characters, the password's message is the minimum-length one, whatever its
  composition; for every password of 8 to 72 characters that violates the composition
  rule it is the composition message; and the result names every field at most once,
  a declared field with the message of the first rule it violates and with no other.
\<close>

theorem password_first_violation:
  "(map_of b ''password'' = Some (JStr s) \<and> s \<noteq> [] \<and> length s < 8 \<longrightarrow>
      map_of (validateBody (signUpSchema ve) b) ''password'' = Some ''errorPassword2'')
   \<and> (map_of b ''password'' = Some (JStr s) \<and> 8 \<le> length s \<and> length s \<le> 72 \<and> \<not> composed s \<longrightarrow>
      map_of (validateBody (signUpSchema ve) b) ''password'' = Some ''errorPassword1'')
   \<and> distinct (map fst (validateBody (signUpSchema ve) b))
   \<and> (\<forall>f rules. (f, rules) \<in> set (signUpSchema ve) \<longrightarrow>
         map_of (validateBody (signUpSchema ve) b) f = firstViolated rules (map_of b f))"
proof -
  have declared: "map_of (validateBody (signUpSchema ve) b) f = firstViolated rules (map_of b f)"
    if "(f, rules) \<in> set (signUpSchema ve)" for f rules
    using validateBody_declared [OF signUpSchema_distinct that] .
  have pw: "map_of (validateBody (signUpSchema ve) b) ''password'' =
            firstViolated passwordRules (map_of b ''password'')"
    using declared [OF password_declared] .
  show ?thesis
    using declared validateBody_distinct [OF signUpSchema_distinct, of ve b]
    by (auto simp: pw firstViolated_short firstViolated_composition)
qed

theorem password_first_violation_witness:
  "map_of (validateBody (signUpSchema (\<lambda>e. True))
      [(''username'', JStr ''user1''), (''email'', JStr ''user1@gmail.com''),
       (''password'', JStr ''%^&*('')]) ''password'' = Some ''errorPassword2''
   \<and> map_of (validateBody (signUpSchema (\<lambda>e. True))
      [(''username'', JStr ''user1''), (''email'', JStr ''user1@gmail.com''),
       (''password'', JStr ''password@123'')]) ''password'' = Some ''errorPassword1''"
proof -
  let ?short = "[(''username'', JStr ''user1''), (''email'', JStr ''user1@gmail.com''),
       (''password'', JStr ''%^&*('')]"
  let ?plain = "[(''username'', JStr ''user1''), (''email'', JStr ''user1@gmail.com''),
       (''password'', JStr ''password@123'')]"
  have h1: "map_of ?short ''password'' = Some (JStr ''%^&*('') \<and> ''%^&*('' \<noteq> [] \<and>
            length ''%^&*('' < 8"
    by simp
  have nc: "\<not> composed ''password@123''"
    by (simp add: composed_def isUpper_def)
  have h2: "map_of ?plain ''password'' = Some (JStr ''password@123'') \<and>
            8 \<le> length ''password@123'' \<and> length ''password@123'' \<le> 72 \<and>
            \<not> composed ''password@123''"
    using nc by simp
  have a: "map_of (validateBody (signUpSchema (\<lambda>e. True)) ?short) ''password'' = Some ''errorPassword2''"
    using password_first_violation [of ?short "''%^&*(''" "\<lambda>e. True", THEN conjunct1] h1
    by (rule mp)
  have b: "map_of (validateBody (signUpSchema (\<lambda>e. True)) ?plain) ''password'' = Some ''errorPassword1''"
    using password_first_violation [of ?plain "''password@123''" "\<lambda>e. True",
        THEN conjunct2, THEN conjunct1] h2
    by (rule mp)
  from a b show ?thesis by (intro conjI)
qed

section \<open>Properties of the account workflows\<close>

lemma activateFirst_tokenState:
  "activateFirst tok now us = Some us' \<Longrightarrow> \<forall>u\<in>set us. tokenState u \<Longrightarrow> \<forall>u\<in>set us'. tokenState u"
proof (induction us arbitrary: us')
  case Nil
  then show ?case by simp
next
  case (Cons u us)
  show ?case
  proof (cases "activationToken u = Some tok")
    case True
    with Cons.prems show ?thesis
      by (auto simp: tokenState_def)
  next
    case False
    with Cons.prems obtain us'' where "activateFirst tok now us = Some us''" and "us' = u # us''"
      by auto
    with Cons show ?thesis by auto
  qed
qed

lemma signUp_tokenState:
  "\<forall>u\<in>set (users s). tokenState u \<Longrightarrow> \<forall>u\<in>set (users (snd (signUp C now tok nu s))). tokenState u"
  by (auto simp: signUp_def Let_def tokenState_def)

lemma activateAccount_tokenState:
  "\<forall>u\<in>set (users s). tokenState u \<Longrightarrow>
   \<forall>u\<in>set (users (snd (activateAccount now tok s))). tokenState u"
proof (cases "activateFirst tok now (users s)")
  case None
  then show "\<forall>u\<in>set (users s). tokenState u \<Longrightarrow> ?thesis"
    by (simp add: activateAccount_def)
next
  case (Some us)
  then show "\<forall>u\<in>set (users s). tokenState u \<Longrightarrow> ?thesis"
    using activateFirst_tokenState [OF Some] by (simp add: activateAccount_def)
qed

lemma updateUser_tokenState:
  "\<forall>u\<in>set (users s). tokenState u \<Longrightarrow>
   \<forall>u\<in>set (users (snd (updateUser now actor target un em s))). tokenState u"
  by (auto simp: updateUser_def tokenState_def)

lemma deleteUser_tokenState:
  "\<forall>u\<in>set (users s). tokenState u \<Longrightarrow>
   \<forall>u\<in>set (users (snd (deleteUser actor target s))). tokenState u"
  by (auto simp: deleteUser_def)

lemma authenticate_users: "users (snd (authenticate C tk em pw s)) = users s"
  by (simp add: authenticate_def split: option.split)

text \<open>
  C8. In every store state reachable from the empty store by signups, activations,
  updates, deletions and logins, every user record is either inactive with an
  activation token or active without one.
\<close>

theorem reachable_tokenState:
  "reachable C s \<Longrightarrow> \<forall>u\<in>set (users s). tokenState u"
proof (induction rule: reachable.induct)
  case initial
  then show ?case by (simp add: emptyStore_def)
next
  case (signup s now tok nu)
  from signup.IH show ?case by (rule signUp_tokenState)
next
  case (activation s now tok)
  from activation.IH show ?case by (rule activateAccount_tokenState)
next
  case (update s now actor target un em)
  from update.IH show ?case by (rule updateUser_tokenState)
next
  case (delete s actor target)
  from delete.IH show ?case by (rule deleteUser_tokenState)
next
  case (login s tk em pw)
  from login.IH show ?case by (simp add: authenticate_users)
qed


theorem reachable_tokenState_witness:
  "reachable sampleCollaborators (snd (signUp sampleCollaborators 0 ''a1b2c3'' sampleNewUser emptyStore))
   \<and> users (snd (signUp sampleCollaborators 0 ''a1b2c3'' sampleNewUser emptyStore)) = [sampleStoredUser]
   \<and> tokenState sampleStoredUser"
proof -
  let ?s = "snd (signUp sampleCollaborators 0 ''a1b2c3'' sampleNewUser emptyStore)"
  have r: "reachable sampleCollaborators ?s"
    by (rule reachable.signup [OF reachable.initial])
  have us: "users ?s = [sampleStoredUser]"
    by (simp add: signUp_def emptyStore_def sampleCollaborators_def sampleNewUser_def
        sampleStoredUser_def Let_def)
  from reachable_tokenState [OF r] us have "tokenState sampleStoredUser"
    by simp
  with r us show ?thesis by (intro conjI)
qed

end
